theory Spec2Isabelle
  imports Main
begin

section \<open>YT Channel Downloader: the main window (classes/mainwindow.py)\<close>

text \<open>
  The control context of the application is the class \<open>MainWindow\<close>. Its methods run on
  the single GUI thread, one slot at a time: each is modelled as a function from the
  window's state to its new state. PyQt6 aborts the process when a slot raises, so a
  slot returns \<open>py_error + MainWindow\<close>, with \<open>Inl\<close> for the exception.

  The collaborators whose code lives in other modules (the static methods of
  \<open>DownloadThread\<close>, the predicates of \<open>YTChannel\<close>, the settings that
  \<open>SettingsManager\<close> loads) and the Python builtin \<open>int\<close> are parameters of the
  functions that call them.
\<close>

subsection \<open>Python values and errors\<close>

datatype py_error =
  KeyError | ValueError | TypeError | AttributeError | OverflowError | URLError

text \<open>The values a signal's \<open>dict\<close> payload or a settings entry can hold.\<close>

datatype pyval = PyNone | PyBool bool | PyInt int | PyStr string

text \<open>\<open>d[k]\<close> on a dict raises \<open>KeyError\<close> for a missing key; \<open>d.get(k, dflt)\<close> does not.\<close>

definition getitem :: "('k \<rightharpoonup> 'v) \<Rightarrow> 'k \<Rightarrow> py_error + 'v" where
  "getitem d k = (case d k of None \<Rightarrow> Inl KeyError | Some v \<Rightarrow> Inr v)"

definition dict_get :: "('k \<rightharpoonup> 'v) \<Rightarrow> 'k \<Rightarrow> 'v \<Rightarrow> 'v" where
  "dict_get d k dflt = (case d k of None \<Rightarrow> dflt | Some v \<Rightarrow> v)"

text \<open>The decimal text of an integer, as an f-string prints it.\<close>

fun digits10 :: "nat \<Rightarrow> string" where
  "digits10 n =
     (if n < 10 then [''0123456789'' ! n]
      else digits10 (n div 10) @ [''0123456789'' ! (n mod 10)])"

declare digits10.simps [simp del]

definition format_int :: "int \<Rightarrow> string" where
  "format_int i = (if i < 0 then CHR ''-'' # digits10 (nat (- i)) else digits10 (nat i))"

subsection \<open>Qt items and the item model\<close>

datatype ItemFlag =
    ItemIsSelectable | ItemIsEditable | ItemIsDragEnabled | ItemIsDropEnabled
  | ItemIsUserCheckable | ItemIsEnabled | ItemIsUserTristate

datatype CheckState = Unchecked | PartiallyChecked | Checked

text \<open>
  The data of a \<open>QStandardItem\<close> that the window reads or writes: the display role
  (a text, or the boolean that the select-all slot stores), the check-state role
  (\<open>None\<close> while unset), the item flags and the foreground colour (\<open>None\<close> for the
  default brush).
\<close>

datatype qvariant = Invalid | QString string | QBool bool

record QStandardItem =
  display :: qvariant
  check_state_data :: "CheckState option"
  flags :: "ItemFlag set"
  foreground :: "string option"

text \<open>\<open>QStandardItem()\<close> and \<open>QStandardItem(text)\<close>, with Qt's default flags.\<close>

definition default_flags :: "ItemFlag set" where
  "default_flags =
     {ItemIsSelectable, ItemIsEditable, ItemIsDragEnabled, ItemIsDropEnabled, ItemIsEnabled}"

definition new_item :: QStandardItem where
  "new_item = \<lparr>display = Invalid, check_state_data = None, flags = default_flags,
               foreground = None\<rparr>"

definition new_text_item :: "string \<Rightarrow> QStandardItem" where
  "new_text_item t = new_item\<lparr>display := QString t\<rparr>"

text \<open>
  \<open>setCheckable(True)\<close> adds the user-checkable flag and, when the check-state role
  holds no data yet, stores \<open>Unchecked\<close> there.
\<close>

definition setCheckable :: "QStandardItem \<Rightarrow> QStandardItem" where
  "setCheckable it =
     it\<lparr>check_state_data :=
          (case check_state_data it of None \<Rightarrow> Some Unchecked | Some c \<Rightarrow> Some c),
        flags := insert ItemIsUserCheckable (flags it)\<rparr>"

definition checkState :: "QStandardItem \<Rightarrow> CheckState" where
  "checkState it = (case check_state_data it of None \<Rightarrow> Unchecked | Some c \<Rightarrow> c)"

definition isCheckable :: "QStandardItem \<Rightarrow> bool" where
  "isCheckable it \<longleftrightarrow> ItemIsUserCheckable \<in> flags it"

text \<open>\<open>text()\<close> is the display role as a string; an item without display data has the empty text.\<close>

definition item_text :: "QStandardItem \<Rightarrow> string" where
  "item_text it =
     (case display it of
        Invalid \<Rightarrow> []
      | QString t \<Rightarrow> t
      | QBool b \<Rightarrow> (if b then ''true'' else ''false''))"

text \<open>
  A row of the four-column model (\<open>Download?\<close>, \<open>Title\<close>, \<open>Link\<close>, \<open>Progress\<close>).
  Every row that \<open>populate_window_list\<close> appends holds four items. The one call that
  could leave a cell without an item, \<open>setItem\<close> beyond the last row in
  \<open>update_progress\<close>, ends in an exception (see there), so the rows of a live window
  are always full.
\<close>

record ModelRow =
  download_item :: QStandardItem
  title_item :: QStandardItem
  link_item :: QStandardItem
  progress_item :: QStandardItem

subsection \<open>Threads, signals and slots\<close>

text \<open>
  A signal connection is recorded on the thread object that owns the signal, as the
  list of the window's slots connected to it, in connection order.
\<close>

datatype progress_slot = Slot_update_progress | Slot_handle_download_error

datatype complete_slot = Slot_populate_window_list | Slot_show_download_complete

datatype finished_slot =
  Slot_handle_video_list | Slot_handle_single_video | Slot_enable_get_vid_list_button

text \<open>
  \<open>DownloadThread(link, index, title, main_window)\<close> with its two signals;
  \<open>dt_started\<close> records the call of \<open>start()\<close>, not that the thread's job is
  running. The fourth argument is a reference to the window itself and has no field.
\<close>

record DownloadThread =
  dt_link :: string
  dt_index :: nat
  dt_title :: string
  downloadCompleteSignal :: "complete_slot list"
  downloadProgressSignal :: "progress_slot list"
  dt_started :: bool

text \<open>
  \<open>GetListThread(channel_id, yt_channel, channel_url=None)\<close>: the first argument is
  the strategy tag \<open>"playlist"\<close> or \<open>"short"\<close>, a channel id, or \<open>None\<close>.
\<close>

record GetListThread =
  glt_channel_id :: "string option"
  glt_channel_url :: "string option"
  glt_finished :: "finished_slot list"
  glt_started :: bool

datatype dialog =
    QMessageBox_critical string string
  | QMessageBox_warning string string
  | QMessageBox_information string string
  | CustomDialog string string

subsection \<open>Collaborators\<close>

text \<open>
  The static methods \<open>DownloadThread.is_download_complete\<close> (a read of the file
  system, so its answers differ from one call of a slot to the next) and
  \<open>DownloadThread.sanitize_filename\<close>, and the builtin \<open>int\<close>.
\<close>

record collaborators =
  is_download_complete :: "string \<Rightarrow> bool"
  sanitize_filename :: "string \<Rightarrow> string"
  py_int :: "pyval \<Rightarrow> py_error + int"

text \<open>The URL predicates of \<open>YTChannel\<close> and its \<open>get_channel_id\<close>, which may raise.\<close>

record YTChannel =
  is_video_with_playlist_url :: "string \<Rightarrow> bool"
  is_playlist_url :: "string \<Rightarrow> bool"
  is_video_url :: "string \<Rightarrow> bool"
  is_short_video_url :: "string \<Rightarrow> bool"
  get_channel_id :: "string \<Rightarrow> py_error + string"

text \<open>The builtin \<open>str\<close> on the values of \<open>pyval\<close>.\<close>

fun py_str :: "pyval \<Rightarrow> string" where
  "py_str PyNone = ''None''"
| "py_str (PyBool b) = (if b then ''True'' else ''False'')"
| "py_str (PyInt i) = format_int i"
| "py_str (PyStr t) = t"

text \<open>\<open>os.path.join\<close> of two components (\<open>posixpath\<close>).\<close>

definition os_path_join :: "string \<Rightarrow> string \<Rightarrow> string" where
  "os_path_join a b =
     (if b \<noteq> [] \<and> hd b = CHR ''/'' then b
      else if a = [] \<or> last a = CHR ''/'' then a @ b
      else a @ ''/'' @ b)"

subsection \<open>The window state\<close>

record MainWindow =
  window_resize_needed :: bool
  download_semaphore :: nat
  model :: "ModelRow list"
  select_all_checkbox_visible :: bool
  getVidListButton_enabled :: bool
  chanUrlEdit :: string
  user_settings :: "string \<rightharpoonup> pyval"
  yt_chan_vids_titles_links :: "(string \<times> string) list"
  vid_dl_indexes :: "nat list"
  dl_threads :: "DownloadThread list"
  dl_path_correspondences :: "string \<rightharpoonup> string"
  get_list_threads :: "GetListThread list"
  dialogs :: "dialog list"

text \<open>
  \<open>download_semaphore\<close> is the number of slots the \<open>QSemaphore\<close> is constructed
  with; the window's own code never acquires or releases one, and what the download
  threads do with the semaphore is not part of this state. \<open>get_list_threads\<close> holds every fetch thread that was constructed, oldest
  first; the attribute \<open>self.get_list_thread\<close> is the last one. \<open>dialogs\<close> is the
  log of the dialogs shown, oldest first. Styling, geometry, the About and login
  dialogs and the enabled state of the download button are presentation and are left
  out.
\<close>

subsection \<open>Construction\<close>

definition init_download_structs :: "MainWindow \<Rightarrow> MainWindow" where
  "init_download_structs s =
     s\<lparr>yt_chan_vids_titles_links := [], vid_dl_indexes := [], dl_threads := [],
       dl_path_correspondences := Map.empty\<rparr>"

text \<open>
  \<open>connect_signals\<close>: the loop over \<open>self.dl_threads\<close> connects each thread that is
  in the list at that moment.
\<close>

definition connect_download_thread :: "DownloadThread \<Rightarrow> DownloadThread" where
  "connect_download_thread t =
     t\<lparr>downloadProgressSignal := downloadProgressSignal t @ [Slot_handle_download_error],
       downloadCompleteSignal := downloadCompleteSignal t @ [Slot_show_download_complete]\<rparr>"

definition connect_signals :: "MainWindow \<Rightarrow> MainWindow" where
  "connect_signals s = s\<lparr>dl_threads := map connect_download_thread (dl_threads s)\<rparr>"

text \<open>
  \<open>__init__\<close>, in the order of the source: the semaphore, \<open>setup_ui\<close> (an empty
  model), \<open>init_download_structs\<close>, \<open>connect_signals\<close>, \<open>initialize_settings\<close>
  (the settings that \<open>SettingsManager\<close> loaded, a parameter) and
  \<open>setup_select_all_checkbox\<close>.
\<close>

definition MainWindow_init :: "(string \<rightharpoonup> pyval) \<Rightarrow> MainWindow" where
  "MainWindow_init settings =
     (let s0 = \<lparr>window_resize_needed = True, download_semaphore = 4, model = [],
                select_all_checkbox_visible = False, getVidListButton_enabled = True,
                chanUrlEdit = [], user_settings = Map.empty,
                yt_chan_vids_titles_links = [], vid_dl_indexes = [], dl_threads = [],
                dl_path_correspondences = Map.empty, get_list_threads = [], dialogs = []\<rparr>;
          s1 = init_download_structs s0;
          s2 = connect_signals s1;
          s3 = s2\<lparr>user_settings := settings\<rparr>
      in s3\<lparr>select_all_checkbox_visible := False\<rparr>)"

subsection \<open>Error notifications\<close>

definition show_download_error :: "int \<Rightarrow> MainWindow \<Rightarrow> MainWindow" where
  "show_download_error index s =
     s\<lparr>dialogs := dialogs s @ [QMessageBox_critical ''Download Error''
        (''An error occurred while downloading item '' @ format_int index
         @ ''. Please check the URL and try again.'')]\<rparr>"

definition show_network_error :: "int \<Rightarrow> MainWindow \<Rightarrow> MainWindow" where
  "show_network_error index s =
     s\<lparr>dialogs := dialogs s @ [QMessageBox_warning ''Network Error''
        (''Network issue encountered while downloading item '' @ format_int index
         @ ''. Check your internet connection and try again.'')]\<rparr>"

definition show_unexpected_error :: "int \<Rightarrow> MainWindow \<Rightarrow> MainWindow" where
  "show_unexpected_error index s =
     s\<lparr>dialogs := dialogs s @ [QMessageBox_warning ''Unexpected Error''
        (''An unexpected error occurred while downloading item '' @ format_int index
         @ ''. Please try again later.'')]\<rparr>"

definition show_download_complete :: "pyval \<Rightarrow> MainWindow \<Rightarrow> MainWindow" where
  "show_download_complete index s =
     s\<lparr>dialogs := dialogs s @ [QMessageBox_information ''Download Complete''
        (''Download completed successfully for item '' @ py_str index @ ''!'')]\<rparr>"

text \<open>
  \<open>handle_download_error(data)\<close>. The comparisons are Python's \<open>==\<close> against a
  string literal: only a string with the same characters is equal.
\<close>

definition handle_download_error ::
  "collaborators \<Rightarrow> (string \<rightharpoonup> pyval) \<Rightarrow> MainWindow \<Rightarrow> py_error + MainWindow" where
  "handle_download_error c data s =
     (case getitem data ''index'' of
        Inl e \<Rightarrow> Inl e
      | Inr v \<Rightarrow>
          (case py_int c v of
             Inl e \<Rightarrow> Inl e
           | Inr index \<Rightarrow>
               (let error_type = dict_get data ''error'' (PyStr ''Unexpected error'')
                in if error_type = PyStr ''Download error'' then Inr (show_download_error index s)
                   else if error_type = PyStr ''Network error'' then Inr (show_network_error index s)
                   else Inr (show_unexpected_error index s))))"

subsection \<open>Populating the list\<close>

text \<open>\<open>reinit_model\<close>: \<open>model.clear()\<close> and the select-all checkbox hidden.\<close>

definition reinit_model :: "MainWindow \<Rightarrow> MainWindow" where
  "reinit_model s = s\<lparr>model := [], select_all_checkbox_visible := False\<rparr>"

text \<open>
  The four items of one row, as the loop body of \<open>populate_window_list\<close> builds them
  for a title, a link and the answer of \<open>is_download_complete\<close>.
\<close>

definition grey :: "string option" where
  "grey = Some ''grey''"

definition make_row :: "string \<Rightarrow> string \<Rightarrow> bool \<Rightarrow> ModelRow" where
  "make_row title link complete =
     (let item_checkbox = setCheckable new_item;
          item_title = new_text_item title;
          item_link = new_text_item link;
          item_progress = new_item
      in if complete
         then \<lparr>download_item = item_checkbox\<lparr>flags := {ItemIsSelectable, ItemIsUserTristate},
                                              foreground := grey\<rparr>,
               title_item = item_title\<lparr>foreground := grey\<rparr>,
               link_item = item_link\<lparr>foreground := grey\<rparr>,
               progress_item = item_progress\<lparr>display := QString ''Complete''\<rparr>\<rparr>
         else \<lparr>download_item = item_checkbox, title_item = item_title,
               link_item = item_link, progress_item = item_progress\<rparr>)"

text \<open>
  \<open>self.user_settings.get('download_directory', './')\<close>, and the destination path
  \<open>os.path.join(download_directory, sanitize_filename(title))\<close> of a title.
\<close>

definition configured_download_directory :: "MainWindow \<Rightarrow> pyval" where
  "configured_download_directory s =
     dict_get (user_settings s) ''download_directory'' (PyStr ''./'')"

definition destination_path :: "collaborators \<Rightarrow> string \<Rightarrow> string \<Rightarrow> string" where
  "destination_path c download_directory title =
     os_path_join download_directory (sanitize_filename c title)"

text \<open>
  The loop of \<open>populate_window_list\<close> over the stored (title, link) pairs.
  \<open>os.path.join\<close> raises \<open>TypeError\<close> when the configured directory is not a string.
\<close>

fun populate_rows ::
  "collaborators \<Rightarrow> (string \<times> string) list \<Rightarrow> MainWindow \<Rightarrow> py_error + MainWindow" where
  "populate_rows c [] s = Inr s"
| "populate_rows c (title_link # rest) s =
     (let item_title_text = fst title_link
      in case configured_download_directory s of
           PyStr download_directory \<Rightarrow>
             (let full_file_path = destination_path c download_directory item_title_text;
                  item = make_row item_title_text (snd title_link)
                           (is_download_complete c full_file_path)
              in populate_rows c rest
                   (s\<lparr>model := model s @ [item],
                      dl_path_correspondences :=
                        (dl_path_correspondences s)(item_title_text \<mapsto> full_file_path)\<rparr>))
         | _ \<Rightarrow> Inl TypeError)"

definition populate_window_list :: "collaborators \<Rightarrow> MainWindow \<Rightarrow> py_error + MainWindow" where
  "populate_window_list c s =
     (case populate_rows c (yt_chan_vids_titles_links s) (reinit_model s) of
        Inl e \<Rightarrow> Inl e
      | Inr s1 \<Rightarrow>
          Inr (if model s1 \<noteq> []
               then s1\<lparr>select_all_checkbox_visible := True, window_resize_needed := False\<rparr>
               else s1))"

definition handle_video_list ::
  "collaborators \<Rightarrow> (string \<times> string) list \<Rightarrow> MainWindow \<Rightarrow> py_error + MainWindow" where
  "handle_video_list c video_list s =
     populate_window_list c (s\<lparr>yt_chan_vids_titles_links := video_list\<rparr>)"

definition handle_single_video ::
  "collaborators \<Rightarrow> (string \<times> string) list \<Rightarrow> MainWindow \<Rightarrow> py_error + MainWindow" where
  "handle_single_video c video_list s =
     populate_window_list c (s\<lparr>yt_chan_vids_titles_links := video_list\<rparr>)"

definition enable_get_vid_list_button :: "MainWindow \<Rightarrow> MainWindow" where
  "enable_get_vid_list_button s = s\<lparr>getVidListButton_enabled := True\<rparr>"

definition display_error_dialog :: "string \<Rightarrow> MainWindow \<Rightarrow> MainWindow" where
  "display_error_dialog message s =
     s\<lparr>dialogs := dialogs s @ [CustomDialog ''URL error'' message],
       getVidListButton_enabled := True\<rparr>"


subsection \<open>Select all\<close>

text \<open>
  One iteration of the loop of \<open>onSelectAllStateChanged\<close>. \<open>model.data\<close> of the
  title cell is the key of the lookup: a cell that holds no text gives a key that is
  not in the dict. The two \<open>setData\<close> calls write the display role and the check-state
  role of the cell in column 0.
\<close>

definition set_selected :: "bool \<Rightarrow> ModelRow \<Rightarrow> ModelRow" where
  "set_selected new_value r =
     (let new_check_state = (if new_value then Checked else Unchecked)
      in r\<lparr>download_item := (download_item r)\<lparr>display := QBool new_value,
                                                check_state_data := Some new_check_state\<rparr>\<rparr>)"

definition select_row ::
  "collaborators \<Rightarrow> bool \<Rightarrow> nat \<Rightarrow> MainWindow \<Rightarrow> py_error + MainWindow" where
  "select_row c new_value row s =
     (case display (title_item (model s ! row)) of
        QString item_title \<Rightarrow>
          (case getitem (dl_path_correspondences s) item_title of
             Inl e \<Rightarrow> Inl e
           | Inr full_file_path \<Rightarrow>
               if full_file_path \<noteq> [] \<and> is_download_complete c full_file_path then Inr s
               else Inr (s\<lparr>model := (model s)[row := set_selected new_value (model s ! row)]\<rparr>))
      | _ \<Rightarrow> Inl KeyError)"

fun select_rows ::
  "collaborators \<Rightarrow> bool \<Rightarrow> nat list \<Rightarrow> MainWindow \<Rightarrow> py_error + MainWindow" where
  "select_rows c new_value [] s = Inr s"
| "select_rows c new_value (row # rows) s =
     (case select_row c new_value row s of
        Inl e \<Rightarrow> Inl e
      | Inr s' \<Rightarrow> select_rows c new_value rows s')"

definition onSelectAllStateChanged ::
  "collaborators \<Rightarrow> int \<Rightarrow> MainWindow \<Rightarrow> py_error + MainWindow" where
  "onSelectAllStateChanged c state s =
     select_rows c (state = 2) [0..<length (model s)] s"

subsection \<open>Dispatching downloads\<close>

text \<open>The first loop of \<open>dl_vids\<close>: the indexes of the checked rows, in row order.\<close>

definition checked_rows :: "ModelRow list \<Rightarrow> nat list" where
  "checked_rows rows =
     filter (\<lambda>row. checkState (download_item (rows ! row)) = Checked) [0..<length rows]"

text \<open>
  The second loop of \<open>dl_vids\<close>: a fresh progress item for the row, then the thread
  is constructed, its two signals are connected, it is appended to \<open>dl_threads\<close> and
  started. The loop does not touch \<open>download_semaphore\<close>.
\<close>

fun start_downloads :: "nat list \<Rightarrow> MainWindow \<Rightarrow> MainWindow" where
  "start_downloads [] s = s"
| "start_downloads (index # rest) s =
     (let s1 = s\<lparr>model := (model s)[index := (model s ! index)\<lparr>progress_item := new_item\<rparr>]\<rparr>;
          link = item_text (link_item (model s1 ! index));
          title = item_text (title_item (model s1 ! index));
          dl_thread = \<lparr>dt_link = link, dt_index = index, dt_title = title,
                       downloadCompleteSignal = [], downloadProgressSignal = [],
                       dt_started = False\<rparr>;
          dl_thread = dl_thread\<lparr>downloadCompleteSignal :=
                        downloadCompleteSignal dl_thread @ [Slot_populate_window_list]\<rparr>;
          dl_thread = dl_thread\<lparr>downloadProgressSignal :=
                        downloadProgressSignal dl_thread @ [Slot_update_progress]\<rparr>;
          s2 = s1\<lparr>dl_threads := dl_threads s1 @ [dl_thread\<lparr>dt_started := True\<rparr>]\<rparr>
      in start_downloads rest s2)"

definition dl_vids :: "MainWindow \<Rightarrow> MainWindow" where
  "dl_vids s =
     (let s1 = s\<lparr>vid_dl_indexes := checked_rows (model s)\<rparr>
      in start_downloads (vid_dl_indexes s1) s1)"

text \<open>
  \<open>update_progress(progress_data)\<close>. The row is passed to
  \<open>QStandardItemModel.setItem\<close> as a C \<open>int\<close>: a value outside 32 bits is an
  \<open>OverflowError\<close>. \<open>setItem\<close> ignores a negative row. For a row beyond the last
  one it grows the model by rows without items and emits \<open>itemChanged\<close>, which is
  connected to \<open>update_download_button_state\<close>; that slot calls \<open>checkState()\<close> on
  \<open>model.item(row, 0)\<close> of every row, which is \<open>None\<close> for a new row:
  \<open>AttributeError\<close>.
\<close>

definition update_progress ::
  "collaborators \<Rightarrow> (string \<rightharpoonup> pyval) \<Rightarrow> MainWindow \<Rightarrow> py_error + MainWindow" where
  "update_progress c progress_data s =
     (case getitem progress_data ''index'' of
        Inl e \<Rightarrow> Inl e
      | Inr v \<Rightarrow>
          (case py_int c v of
             Inl e \<Rightarrow> Inl e
           | Inr file_index \<Rightarrow>
               (case getitem progress_data ''progress'' of
                  Inl e \<Rightarrow> Inl e
                | Inr progress \<Rightarrow>
                    (let progress_item = new_text_item (py_str progress)
                     in if file_index < - 2147483648 \<or> 2147483647 < file_index
                        then Inl OverflowError
                        else if file_index < 0 then Inr s
                        else if nat file_index < length (model s)
                        then Inr (s\<lparr>model := (model s)[nat file_index :=
                                     (model s ! nat file_index)\<lparr>progress_item := progress_item\<rparr>]\<rparr>)
                        else Inl AttributeError))))"

subsection \<open>Fetching the list\<close>

text \<open>
  \<open>show_vid_list\<close>. In the single-video branch the thread built for a short-form URL
  is assigned to \<open>self.get_list_thread\<close> and replaced by the next statement before it
  is connected or started. \<open>get_channel_id\<close> may raise: \<open>ValueError\<close> and \<open>URLError\<close>
  are caught, any other exception leaves the slot.
\<close>

definition new_GetListThread :: "string option \<Rightarrow> string option \<Rightarrow> GetListThread" where
  "new_GetListThread channel_id channel_url =
     \<lparr>glt_channel_id = channel_id, glt_channel_url = channel_url, glt_finished = [],
      glt_started = False\<rparr>"

text \<open>
  The statements shared by the three branches: the thread becomes
  \<open>self.get_list_thread\<close>, \<open>finished\<close> is connected to the branch's handler and to
  \<open>enable_get_vid_list_button\<close>, and the thread is started.
\<close>

definition start_get_list_thread ::
  "GetListThread \<Rightarrow> finished_slot \<Rightarrow> MainWindow \<Rightarrow> MainWindow" where
  "start_get_list_thread t handler s =
     (let t = t\<lparr>glt_finished := glt_finished t @ [handler]\<rparr>;
          t = t\<lparr>glt_finished := glt_finished t @ [Slot_enable_get_vid_list_button]\<rparr>;
          t = t\<lparr>glt_started := True\<rparr>
      in s\<lparr>get_list_threads := get_list_threads s @ [t]\<rparr>)"

definition show_vid_list :: "YTChannel \<Rightarrow> MainWindow \<Rightarrow> py_error + MainWindow" where
  "show_vid_list yt_channel s =
     (let s = s\<lparr>window_resize_needed := True, getVidListButton_enabled := False\<rparr>;
          channel_url = chanUrlEdit s
      in if is_video_with_playlist_url yt_channel channel_url
            \<or> is_playlist_url yt_channel channel_url
         then Inr (start_get_list_thread (new_GetListThread (Some ''playlist'') (Some channel_url))
                     Slot_handle_video_list s)
         else if is_video_url yt_channel channel_url \<or> is_short_video_url yt_channel channel_url
         then
           (let s = (if is_short_video_url yt_channel channel_url
                     then s\<lparr>get_list_threads := get_list_threads s
                            @ [new_GetListThread (Some ''short'') (Some channel_url)]\<rparr>
                     else s)
            in Inr (start_get_list_thread (new_GetListThread None (Some channel_url))
                      Slot_handle_single_video s))
         else
           (case get_channel_id yt_channel channel_url of
              Inl ValueError \<Rightarrow> Inr (display_error_dialog ''Please check your URL'' s)
            | Inl URLError \<Rightarrow> Inr (display_error_dialog ''Please check your URL'' s)
            | Inl e \<Rightarrow> Inl e
            | Inr channel_id \<Rightarrow>
                Inr (start_get_list_thread (new_GetListThread (Some channel_id) None)
                       Slot_handle_video_list s)))"

subsection \<open>Signal delivery\<close>

text \<open>
  A signal runs the slots connected to it in connection order, on the GUI thread. A
  slot that takes no argument (\<open>populate_window_list\<close>, \<open>enable_get_vid_list_button\<close>)
  is called without the signal's payload.
\<close>

fun run_progress_slots ::
  "collaborators \<Rightarrow> progress_slot list \<Rightarrow> (string \<rightharpoonup> pyval) \<Rightarrow> MainWindow
   \<Rightarrow> py_error + MainWindow" where
  "run_progress_slots c [] data s = Inr s"
| "run_progress_slots c (sl # rest) data s =
     (case (case sl of
              Slot_update_progress \<Rightarrow> update_progress c data s
            | Slot_handle_download_error \<Rightarrow> handle_download_error c data s) of
        Inl e \<Rightarrow> Inl e
      | Inr s' \<Rightarrow> run_progress_slots c rest data s')"

fun run_complete_slots ::
  "collaborators \<Rightarrow> complete_slot list \<Rightarrow> pyval \<Rightarrow> MainWindow \<Rightarrow> py_error + MainWindow" where
  "run_complete_slots c [] index s = Inr s"
| "run_complete_slots c (sl # rest) index s =
     (case (case sl of
              Slot_populate_window_list \<Rightarrow> populate_window_list c s
            | Slot_show_download_complete \<Rightarrow> Inr (show_download_complete index s)) of
        Inl e \<Rightarrow> Inl e
      | Inr s' \<Rightarrow> run_complete_slots c rest index s')"

fun run_finished_slots ::
  "collaborators \<Rightarrow> finished_slot list \<Rightarrow> (string \<times> string) list \<Rightarrow> MainWindow
   \<Rightarrow> py_error + MainWindow" where
  "run_finished_slots c [] video_list s = Inr s"
| "run_finished_slots c (sl # rest) video_list s =
     (case (case sl of
              Slot_handle_video_list \<Rightarrow> handle_video_list c video_list s
            | Slot_handle_single_video \<Rightarrow> handle_single_video c video_list s
            | Slot_enable_get_vid_list_button \<Rightarrow> Inr (enable_get_vid_list_button s)) of
        Inl e \<Rightarrow> Inl e
      | Inr s' \<Rightarrow> run_finished_slots c rest video_list s')"

text \<open>
  The \<open>k\<close>-th thread of \<open>dl_threads\<close> emits one of its signals; the \<open>k\<close>-th fetch
  thread emits \<open>finished\<close> with the list it resolved.
\<close>

definition emit_downloadProgressSignal ::
  "collaborators \<Rightarrow> nat \<Rightarrow> (string \<rightharpoonup> pyval) \<Rightarrow> MainWindow \<Rightarrow> py_error + MainWindow" where
  "emit_downloadProgressSignal c k data s =
     (if k < length (dl_threads s)
      then run_progress_slots c (downloadProgressSignal (dl_threads s ! k)) data s
      else Inr s)"

definition emit_downloadCompleteSignal ::
  "collaborators \<Rightarrow> nat \<Rightarrow> pyval \<Rightarrow> MainWindow \<Rightarrow> py_error + MainWindow" where
  "emit_downloadCompleteSignal c k index s =
     (if k < length (dl_threads s)
      then run_complete_slots c (downloadCompleteSignal (dl_threads s ! k)) index s
      else Inr s)"

definition emit_finished ::
  "collaborators \<Rightarrow> nat \<Rightarrow> (string \<times> string) list \<Rightarrow> MainWindow \<Rightarrow> py_error + MainWindow" where
  "emit_finished c k video_list s =
     (if k < length (get_list_threads s) \<and> glt_started (get_list_threads s ! k)
      then run_finished_slots c (glt_finished (get_list_threads s ! k)) video_list s
      else Inr s)"

subsection \<open>The life of a window\<close>

text \<open>
  What can happen to a window once it is constructed: the user edits the URL field,
  the slots \<open>show_vid_list\<close>, \<open>dl_vids\<close> and \<open>onSelectAllStateChanged\<close> run, the user
  changes the checkbox of a row, the settings dict is changed, a thread emits one of
  its signals, or the \<open>YTChannel\<close> object emits \<open>showError\<close>, which is connected to
  \<open>display_error_dialog\<close>.

  The events are more liberal than the program, which only adds states:
  \<^item> a slot may run whatever the state of the button that triggers it (in the program
    \<open>show_vid_list\<close> runs on a click of the fetch button, which is disabled while a
    fetch is under way);
  \<^item> the delegate that lets the user change a row and the settings dialog live in
    other modules, so these events are allowed on every row and with every dict;
  \<^item> any thread of the window may emit at any time and with any payload, also a fetch
    thread that \<open>self.get_list_thread\<close> no longer refers to (in the program such a
    thread object does not survive the assignment).

  So a property proved of all these states holds of the program's, while a state
  reached here need not be one of the program's. What the threads do with the
  semaphore is code of their own module and has no event here.
\<close>

datatype event =
    Edit_chanUrl string
  | Run_show_vid_list YTChannel
  | Run_dl_vids
  | Run_onSelectAllStateChanged int
  | Change_row_checkbox nat CheckState
  | Change_user_settings "string \<rightharpoonup> pyval"
  | Emit_finished nat "(string \<times> string) list"
  | Emit_downloadProgressSignal nat "string \<rightharpoonup> pyval"
  | Emit_downloadCompleteSignal nat pyval
  | Emit_showError string

definition change_row_checkbox :: "nat \<Rightarrow> CheckState \<Rightarrow> MainWindow \<Rightarrow> MainWindow" where
  "change_row_checkbox row st s =
     (if row < length (model s)
      then s\<lparr>model := (model s)[row := (model s ! row)\<lparr>download_item :=
                (download_item (model s ! row))\<lparr>check_state_data := Some st\<rparr>\<rparr>]\<rparr>
      else s)"

fun step :: "collaborators \<Rightarrow> event \<Rightarrow> MainWindow \<Rightarrow> py_error + MainWindow" where
  "step c (Edit_chanUrl url) s = Inr (s\<lparr>chanUrlEdit := url\<rparr>)"
| "step c (Run_show_vid_list yt_channel) s = show_vid_list yt_channel s"
| "step c Run_dl_vids s = Inr (dl_vids s)"
| "step c (Run_onSelectAllStateChanged state) s = onSelectAllStateChanged c state s"
| "step c (Change_row_checkbox row st) s = Inr (change_row_checkbox row st s)"
| "step c (Change_user_settings settings) s = Inr (s\<lparr>user_settings := settings\<rparr>)"
| "step c (Emit_finished k video_list) s = emit_finished c k video_list s"
| "step c (Emit_downloadProgressSignal k data) s = emit_downloadProgressSignal c k data s"
| "step c (Emit_downloadCompleteSignal k index) s = emit_downloadCompleteSignal c k index s"
| "step c (Emit_showError message) s = Inr (display_error_dialog message s)"

text \<open>A sequence of events; it stops at the first exception.\<close>

fun run :: "collaborators \<Rightarrow> event list \<Rightarrow> MainWindow \<Rightarrow> py_error + MainWindow" where
  "run c [] s = Inr s"
| "run c (ev # evs) s =
     (case step c ev s of Inl e \<Rightarrow> Inl e | Inr s' \<Rightarrow> run c evs s')"

text \<open>
  The states of a live window. The collaborators may answer differently at every
  event (the file system changes while downloads run).
\<close>

inductive reachable :: "MainWindow \<Rightarrow> bool" where
  reachable_init: "reachable (MainWindow_init settings)"
| reachable_step: "reachable s \<Longrightarrow> step c ev s = Inr s' \<Longrightarrow> reachable s'"

subsection \<open>Notions of the specification\<close>

text \<open>
  A row is locked when its checkbox cannot be checked, the row is grey and its progress
  cell reads \<open>Complete\<close>; it is open when its checkbox can be checked, the row has
  the default colour and its progress cell is empty.
\<close>

definition row_locked :: "ModelRow \<Rightarrow> bool" where
  "row_locked r \<longleftrightarrow>
     \<not> isCheckable (download_item r) \<and> ItemIsEnabled \<notin> flags (download_item r)
     \<and> foreground (download_item r) = grey \<and> foreground (title_item r) = grey
     \<and> foreground (link_item r) = grey \<and> item_text (progress_item r) = ''Complete''"

definition row_open :: "ModelRow \<Rightarrow> bool" where
  "row_open r \<longleftrightarrow>
     isCheckable (download_item r) \<and> ItemIsEnabled \<in> flags (download_item r)
     \<and> foreground (download_item r) = None \<and> foreground (title_item r) = None
     \<and> foreground (link_item r) = None \<and> item_text (progress_item r) = []"

text \<open>
  The destination path that the correspondence map holds for a row (the map is keyed
  by the title the row displays), and whether \<open>is_download_complete\<close> reports that
  path complete.
\<close>

definition row_destination :: "MainWindow \<Rightarrow> ModelRow \<Rightarrow> string option" where
  "row_destination s r =
     (case display (title_item r) of
        QString t \<Rightarrow> dl_path_correspondences s t
      | _ \<Rightarrow> None)"


text \<open>
  The condition under which one iteration of the select-all loop executes \<open>continue\<close>:
  the stored path is a non-empty string and \<open>is_download_complete\<close> reports it
  complete.
\<close>

definition row_skipped :: "collaborators \<Rightarrow> MainWindow \<Rightarrow> ModelRow \<Rightarrow> bool" where
  "row_skipped c s r =
     (case row_destination s r of
        Some path \<Rightarrow> path \<noteq> [] \<and> is_download_complete c path
      | None \<Rightarrow> False)"

text \<open>Every row of the model displays a title that has an entry in the map.\<close>

definition rows_resolved :: "MainWindow \<Rightarrow> bool" where
  "rows_resolved s \<longleftrightarrow> list_all (\<lambda>r. row_destination s r \<noteq> None) (model s)"

text \<open>The row that \<open>populate_window_list\<close> builds for a (title, link) pair.\<close>

definition fresh_row :: "collaborators \<Rightarrow> string \<Rightarrow> string \<times> string \<Rightarrow> ModelRow" where
  "fresh_row c download_directory title_link =
     make_row (fst title_link) (snd title_link)
       (is_download_complete c (destination_path c download_directory (fst title_link)))"

subsection \<open>Concrete collaborators for evaluation\<close>

text \<open>
  The builtin \<open>int\<close> on \<open>None\<close>, booleans, integers and plain decimal strings (an
  optional sign, then ASCII digits). Python's \<open>int\<close> accepts more strings
  (surrounding whitespace, underscores between digits); they are \<open>ValueError\<close> here.
  Only the evaluations on concrete inputs use this function: every property below takes
  \<open>py_int\<close> as it comes.
\<close>

definition digit_value :: "char \<Rightarrow> nat option" where
  "digit_value ch =
     (if ch = CHR ''0'' then Some 0 else if ch = CHR ''1'' then Some 1
      else if ch = CHR ''2'' then Some 2 else if ch = CHR ''3'' then Some 3
      else if ch = CHR ''4'' then Some 4 else if ch = CHR ''5'' then Some 5
      else if ch = CHR ''6'' then Some 6 else if ch = CHR ''7'' then Some 7
      else if ch = CHR ''8'' then Some 8 else if ch = CHR ''9'' then Some 9
      else None)"

fun parse_digits :: "string \<Rightarrow> nat \<Rightarrow> nat option" where
  "parse_digits [] acc = Some acc"
| "parse_digits (ch # rest) acc =
     (case digit_value ch of None \<Rightarrow> None | Some d \<Rightarrow> parse_digits rest (10 * acc + d))"

definition parse_decimal :: "string \<Rightarrow> py_error + int" where
  "parse_decimal t =
     (let (negative, body) =
            (case t of
               ch # rest \<Rightarrow> (if ch = CHR ''-'' then (True, rest)
                              else if ch = CHR ''+'' then (False, rest) else (False, t))
             | [] \<Rightarrow> (False, t))
      in if body = [] then Inl ValueError
         else (case parse_digits body 0 of
                 None \<Rightarrow> Inl ValueError
               | Some n \<Rightarrow> Inr (if negative then - int n else int n)))"

fun int_of_pyval :: "pyval \<Rightarrow> py_error + int" where
  "int_of_pyval (PyInt i) = Inr i"
| "int_of_pyval (PyBool b) = Inr (if b then 1 else 0)"
| "int_of_pyval PyNone = Inl TypeError"
| "int_of_pyval (PyStr t) = parse_decimal t"

text \<open>
  A file system on which exactly \<open>./Intro\<close> is a finished download, and a sanitizer
  that leaves these titles as they are.
\<close>

definition example_collaborators :: collaborators where
  "example_collaborators =
     \<lparr>is_download_complete = (\<lambda>path. path = ''./Intro''),
      sanitize_filename = (\<lambda>title. title),
      py_int = int_of_pyval\<rparr>"

text \<open>
  A freshly constructed window with default settings that has received a list of three
  videos, two of them with the same title.
\<close>

definition example_videos :: "(string \<times> string) list" where
  "example_videos =
     [(''Intro'', ''https://youtu.be/a''), (''Talk'', ''https://youtu.be/b''),
      (''Talk'', ''https://youtu.be/c'')]"

definition example_window :: MainWindow where
  "example_window = (MainWindow_init Map.empty)\<lparr>yt_chan_vids_titles_links := example_videos\<rparr>"

text \<open>
  The same window after \<open>populate_window_list\<close> has run on that file system, and a
  later file system on which \<open>./Talk\<close> has been downloaded too.
\<close>

definition example_populated :: MainWindow where
  "example_populated =
     (case populate_window_list example_collaborators example_window of
        Inr s' \<Rightarrow> s'
      | Inl e \<Rightarrow> example_window)"

definition example_collaborators_later :: collaborators where
  "example_collaborators_later =
     example_collaborators\<lparr>is_download_complete :=
       (\<lambda>path. path = ''./Intro'' \<or> path = ''./Talk'')\<rparr>"

text \<open>
  A \<open>YTChannel\<close> that recognises one URL of each shape, and a session: the user asks
  for a playlist, the list arrives, the user selects all rows and starts the
  downloads, and the first download thread reports progress for row 1.
\<close>

definition example_yt_channel :: YTChannel where
  "example_yt_channel =
     \<lparr>is_video_with_playlist_url = (\<lambda>url. False),
      is_playlist_url = (\<lambda>url. url = ''https://www.youtube.com/playlist?list=PL1''),
      is_video_url = (\<lambda>url. url = ''https://www.youtube.com/watch?v=abc''),
      is_short_video_url = (\<lambda>url. url = ''https://www.youtube.com/shorts/xyz''),
      get_channel_id = (\<lambda>url. if url = ''https://www.youtube.com/@chan''
                               then Inr ''UC123'' else Inl ValueError)\<rparr>"

definition example_session :: "event list" where
  "example_session =
     [Edit_chanUrl ''https://www.youtube.com/playlist?list=PL1'',
      Run_show_vid_list example_yt_channel,
      Emit_finished 0 example_videos,
      Run_onSelectAllStateChanged 2,
      Run_dl_vids,
      Emit_downloadProgressSignal 0 [''index'' \<mapsto> PyStr ''1'', ''progress'' \<mapsto> PyStr ''50 %'']]"

definition example_dispatched :: MainWindow where
  "example_dispatched =
     (case run example_collaborators example_session (MainWindow_init Map.empty) of
        Inr s \<Rightarrow> s
      | Inl e \<Rightarrow> MainWindow_init Map.empty)"

text \<open>
  A second session: the download directory is configured as the empty string, and the
  list that arrives holds two videos whose title is empty, so the destination path of
  both is the empty string. On this file system the probe reports the empty path
  complete. And the window after the user has then ticked the select-all checkbox.
\<close>

definition example_blank_collaborators :: collaborators where
  "example_blank_collaborators =
     \<lparr>is_download_complete = (\<lambda>path. path = []),
      sanitize_filename = (\<lambda>title. title),
      py_int = int_of_pyval\<rparr>"

definition example_blank_listed :: MainWindow where
  "example_blank_listed =
     (case run example_blank_collaborators
             [Edit_chanUrl ''https://www.youtube.com/playlist?list=PL1'',
              Run_show_vid_list example_yt_channel,
              Emit_finished 0 [([], ''https://youtu.be/d''), ([], ''https://youtu.be/e'')]]
             (MainWindow_init [''download_directory'' \<mapsto> PyStr []]) of
        Inr s \<Rightarrow> s
      | Inl e \<Rightarrow> MainWindow_init Map.empty)"

definition example_blank_selected :: MainWindow where
  "example_blank_selected =
     (case onSelectAllStateChanged example_blank_collaborators 2 example_blank_listed of
        Inr s \<Rightarrow> s
      | Inl e \<Rightarrow> MainWindow_init Map.empty)"

text \<open>A third session: the user asks for a short-form video.\<close>

definition example_short_requested :: MainWindow where
  "example_short_requested =
     (case run example_collaborators
             [Edit_chanUrl ''https://www.youtube.com/shorts/xyz'',
              Run_show_vid_list example_yt_channel]
             (MainWindow_init Map.empty) of
        Inr s \<Rightarrow> s
      | Inl e \<Rightarrow> MainWindow_init Map.empty)"

section \<open>Properties\<close>

subsection \<open>Classification of error notifications\<close>

text \<open>
  C7. For every error notification whose \<open>index\<close> field is present and converts to an
  integer, \<open>handle_download_error\<close> returns and shows exactly one report for that
  index, appended to the dialogs already shown, and changes nothing else: the critical
  box \<open>Download Error\<close> when the \<open>error\<close> field is the string \<open>Download error\<close>,
  the warning box \<open>Network Error\<close> when it is \<open>Network error\<close>, and the warning box
  \<open>Unexpected Error\<close> for every other value and for a missing field. The three
  reports differ in their titles and texts.
\<close>

theorem handle_download_error_classifies:
  assumes "data ''index'' = Some v" and "py_int c v = Inr i"
  shows "handle_download_error c data s =
     Inr (s\<lparr>dialogs := dialogs s @
        [if data ''error'' = Some (PyStr ''Download error'')
         then QMessageBox_critical ''Download Error''
                (''An error occurred while downloading item '' @ format_int i
                 @ ''. Please check the URL and try again.'')
         else if data ''error'' = Some (PyStr ''Network error'')
         then QMessageBox_warning ''Network Error''
                (''Network issue encountered while downloading item '' @ format_int i
                 @ ''. Check your internet connection and try again.'')
         else QMessageBox_warning ''Unexpected Error''
                (''An unexpected error occurred while downloading item '' @ format_int i
                 @ ''. Please try again later.'')]\<rparr>)"
  using assms
  by (simp add: handle_download_error_def getitem_def dict_get_def show_download_error_def
      show_network_error_def show_unexpected_error_def split: option.splits)

lemma format_int_3: "format_int 3 = ''3''"
  by code_simp

theorem handle_download_error_classifies_witness:
  "handle_download_error example_collaborators
     [''index'' \<mapsto> PyStr ''3'', ''error'' \<mapsto> PyStr ''Network error'']
     (MainWindow_init Map.empty)
   = Inr ((MainWindow_init Map.empty)\<lparr>dialogs :=
       [QMessageBox_warning ''Network Error''
         ''Network issue encountered while downloading item 3. Check your internet connection and try again.'']\<rparr>)
   \<and> handle_download_error example_collaborators
     [''index'' \<mapsto> PyStr ''3'', ''error'' \<mapsto> PyStr ''Download error'']
     (MainWindow_init Map.empty)
   = Inr ((MainWindow_init Map.empty)\<lparr>dialogs :=
       [QMessageBox_critical ''Download Error''
         ''An error occurred while downloading item 3. Please check the URL and try again.'']\<rparr>)
   \<and> handle_download_error example_collaborators
     [''index'' \<mapsto> PyStr ''3'']
     (MainWindow_init Map.empty)
   = Inr ((MainWindow_init Map.empty)\<lparr>dialogs :=
       [QMessageBox_warning ''Unexpected Error''
         ''An unexpected error occurred while downloading item 3. Please try again later.'']\<rparr>)"
proof -
  have i: "py_int example_collaborators (PyStr ''3'') = Inr 3"
    by (simp add: example_collaborators_def parse_decimal_def digit_value_def)
  have d: "dialogs (MainWindow_init Map.empty) = []"
    by (simp add: MainWindow_init_def Let_def connect_signals_def init_download_structs_def)
  from handle_download_error_classifies
    [of "[''index'' \<mapsto> PyStr ''3'', ''error'' \<mapsto> PyStr ''Network error'']" "PyStr ''3''"
        example_collaborators 3 "MainWindow_init Map.empty", OF _ i]
    handle_download_error_classifies
    [of "[''index'' \<mapsto> PyStr ''3'', ''error'' \<mapsto> PyStr ''Download error'']" "PyStr ''3''"
        example_collaborators 3 "MainWindow_init Map.empty", OF _ i]
    handle_download_error_classifies
    [of "[''index'' \<mapsto> PyStr ''3'']" "PyStr ''3''"
        example_collaborators 3 "MainWindow_init Map.empty", OF _ i]
  show ?thesis by (simp add: d format_int_3)
qed

subsection \<open>The admission gate's capacity\<close>

text \<open>
  C6, as the code has it. The semaphore is constructed with the literal 4 before the
  settings are read, and nothing in the window's construction consults the settings
  for it: whatever the user's settings hold, the gate has 4 slots.
\<close>

theorem download_semaphore_fixed:
  "download_semaphore (MainWindow_init settings) = 4"
  by (simp add: MainWindow_init_def Let_def connect_signals_def init_download_structs_def)

text \<open>
  C6 as stated fails: a settings dict that asks for 8 simultaneous downloads gives the
  same gate as an empty one.
\<close>

theorem download_semaphore_not_configurable:
  "download_semaphore (MainWindow_init [''max_simultaneous_downloads'' \<mapsto> PyInt 8]) \<noteq> 8
   \<and> download_semaphore (MainWindow_init [''max_simultaneous_downloads'' \<mapsto> PyInt 8])
     = download_semaphore (MainWindow_init Map.empty)"
  by (simp add: MainWindow_init_def Let_def connect_signals_def init_download_structs_def)

subsection \<open>List population\<close>

text \<open>
  The loop of \<open>populate_window_list\<close> in closed form: it appends one fresh row per
  stored pair and stores the destination path of every title it meets.
\<close>

lemma populate_rows_eq:
  assumes "configured_download_directory s = PyStr d"
  shows "populate_rows c tls s =
     Inr (s\<lparr>model := model s @ map (fresh_row c d) tls,
           dl_path_correspondences :=
             (\<lambda>t. if t \<in> fst ` set tls then Some (destination_path c d t)
                  else dl_path_correspondences s t)\<rparr>)"
  using assms
proof (induction tls arbitrary: s)
  case Nil
  then show ?case by simp
next
  case (Cons tl tls)
  let ?s1 = "s\<lparr>model := model s @ [fresh_row c d tl],
               dl_path_correspondences :=
                 (dl_path_correspondences s)(fst tl \<mapsto> destination_path c d (fst tl))\<rparr>"
  have d1: "configured_download_directory ?s1 = PyStr d"
    using Cons.prems by (simp add: configured_download_directory_def)
  have "populate_rows c (tl # tls) s = populate_rows c tls ?s1"
    using Cons.prems by (simp add: fresh_row_def Let_def)
  also have "\<dots> = Inr (?s1\<lparr>model := model ?s1 @ map (fresh_row c d) tls,
           dl_path_correspondences :=
             (\<lambda>t. if t \<in> fst ` set tls then Some (destination_path c d t)
                  else dl_path_correspondences ?s1 t)\<rparr>)"
    by (rule Cons.IH [OF d1])
  also have "\<dots> = Inr (s\<lparr>model := model s @ map (fresh_row c d) (tl # tls),
           dl_path_correspondences :=
             (\<lambda>t. if t \<in> fst ` set (tl # tls) then Some (destination_path c d t)
                  else dl_path_correspondences s t)\<rparr>)"
    by (auto simp: fun_eq_iff)
  finally show ?case .
qed

lemma populate_rows_no_directory:
  assumes "\<And>d. configured_download_directory s \<noteq> PyStr d"
  shows "populate_rows c tls s = (if tls = [] then Inr s else Inl TypeError)"
  using assms by (cases tls) (auto simp: Let_def split: pyval.splits)

text \<open>The state after a successful \<open>populate_window_list\<close>.\<close>

lemma populate_window_list_eq:
  assumes "configured_download_directory s = PyStr d"
  shows "populate_window_list c s =
     Inr (s\<lparr>model := map (fresh_row c d) (yt_chan_vids_titles_links s),
           dl_path_correspondences :=
             (\<lambda>t. if t \<in> fst ` set (yt_chan_vids_titles_links s)
                  then Some (destination_path c d t) else dl_path_correspondences s t),
           select_all_checkbox_visible := (yt_chan_vids_titles_links s \<noteq> []),
           window_resize_needed :=
             (yt_chan_vids_titles_links s = [] \<and> window_resize_needed s)\<rparr>)"
proof -
  have "configured_download_directory (reinit_model s) = PyStr d"
    using assms by (simp add: configured_download_directory_def reinit_model_def)
  from populate_rows_eq [OF this, of c "yt_chan_vids_titles_links s"]
  show ?thesis
    by (cases "yt_chan_vids_titles_links s = []")
       (simp_all add: populate_window_list_def reinit_model_def cong: if_cong)
qed

lemma row_locked_make_row: "row_locked (make_row t l b) = b"
  by (simp add: row_locked_def make_row_def Let_def isCheckable_def setCheckable_def
      new_item_def new_text_item_def item_text_def grey_def default_flags_def)

lemma row_open_make_row: "row_open (make_row t l b) = (\<not> b)"
  by (simp add: row_open_def make_row_def Let_def isCheckable_def setCheckable_def
      new_item_def new_text_item_def item_text_def grey_def default_flags_def)

lemma example_window_directory: "configured_download_directory example_window = PyStr ''./''"
  by (simp add: configured_download_directory_def example_window_def MainWindow_init_def
      Let_def connect_signals_def init_download_structs_def dict_get_def)

lemma example_window_videos: "yt_chan_vids_titles_links example_window = example_videos"
  by (simp add: example_window_def)

lemma example_paths:
  "destination_path example_collaborators ''./'' ''Intro'' = ''./Intro''"
  "destination_path example_collaborators ''./'' ''Talk'' = ''./Talk''"
  by (simp_all add: destination_path_def os_path_join_def example_collaborators_def)

text \<open>
  C4. When the configured download directory is a string, \<open>populate_window_list\<close>
  returns, the model has one row per stored (title, link) pair, the destination path
  of each row's title is stored in the correspondence map, and a row is locked exactly
  when \<open>is_download_complete\<close> answered true for that path during population; every
  other row is open.
\<close>

theorem populate_window_list_locks_complete_rows:
  assumes "configured_download_directory s = PyStr d"
  shows "\<exists>s'. populate_window_list c s = Inr s'
     \<and> length (model s') = length (yt_chan_vids_titles_links s)
     \<and> (\<forall>i < length (yt_chan_vids_titles_links s).
          dl_path_correspondences s' (fst (yt_chan_vids_titles_links s ! i))
            = Some (destination_path c d (fst (yt_chan_vids_titles_links s ! i)))
          \<and> row_locked (model s' ! i)
            = is_download_complete c (destination_path c d (fst (yt_chan_vids_titles_links s ! i)))
          \<and> row_open (model s' ! i)
            = (\<not> is_download_complete c
                   (destination_path c d (fst (yt_chan_vids_titles_links s ! i)))))"
  by (simp add: populate_window_list_eq [OF assms] fresh_row_def row_locked_make_row
      row_open_make_row)

theorem populate_window_list_locks_complete_rows_witness:
  "\<exists>s'. populate_window_list example_collaborators example_window = Inr s'
     \<and> length (model s') = 3
     \<and> row_locked (model s' ! 0) \<and> \<not> row_open (model s' ! 0)
     \<and> row_open (model s' ! 1) \<and> \<not> row_locked (model s' ! 1)"
proof -
  from populate_window_list_locks_complete_rows
    [OF example_window_directory, of example_collaborators]
  obtain s' where s': "populate_window_list example_collaborators example_window = Inr s'"
    and len: "length (model s') = length example_videos"
    and rows: "\<forall>i < length example_videos.
          row_locked (model s' ! i)
            = is_download_complete example_collaborators
                (destination_path example_collaborators ''./'' (fst (example_videos ! i)))
          \<and> row_open (model s' ! i)
            = (\<not> is_download_complete example_collaborators
                   (destination_path example_collaborators ''./'' (fst (example_videos ! i))))"
    unfolding example_window_videos by blast
  have "0 < length example_videos" "1 < length example_videos"
    by (simp_all add: example_videos_def)
  with rows have
    "row_locked (model s' ! 0)
       = is_download_complete example_collaborators
           (destination_path example_collaborators ''./'' (fst (example_videos ! 0)))"
    "row_open (model s' ! 0)
       = (\<not> is_download_complete example_collaborators
           (destination_path example_collaborators ''./'' (fst (example_videos ! 0))))"
    "row_locked (model s' ! 1)
       = is_download_complete example_collaborators
           (destination_path example_collaborators ''./'' (fst (example_videos ! 1)))"
    "row_open (model s' ! 1)
       = (\<not> is_download_complete example_collaborators
           (destination_path example_collaborators ''./'' (fst (example_videos ! 1))))"
    by blast+
  then have "row_locked (model s' ! 0)" "\<not> row_open (model s' ! 0)"
    "row_open (model s' ! 1)" "\<not> row_locked (model s' ! 1)"
    by (simp_all add: example_videos_def example_paths)
       (simp_all add: example_collaborators_def)
  with s' len show ?thesis by (simp add: example_videos_def)
qed

subsection \<open>Select all\<close>

text \<open>
  The loop of \<open>onSelectAllStateChanged\<close> in closed form. When the title of every row
  has an entry in the correspondence map, no lookup raises, and the loop leaves the
  rows on which it executes \<open>continue\<close> as they are and writes the new value into the
  checkbox cell of every other row. Nothing but the model changes.
\<close>

lemma select_rows_append:
  "select_rows c nv (as @ bs) s =
     (case select_rows c nv as s of Inl e \<Rightarrow> Inl e | Inr s' \<Rightarrow> select_rows c nv bs s')"
  by (induction as arbitrary: s) (auto split: sum.splits)

lemma select_rows_prefix:
  assumes dest: "\<forall>r \<in> set (model s). \<exists>p. row_destination s r = Some p"
    and k: "k \<le> length (model s)"
  shows "select_rows c nv [0..<k] s =
     Inr (s\<lparr>model := map (\<lambda>r. if row_skipped c s r then r else set_selected nv r)
                        (take k (model s)) @ drop k (model s)\<rparr>)"
  using k
proof (induction k)
  case 0
  then show ?case by simp
next
  case (Suc k)
  let ?g = "\<lambda>r. if row_skipped c s r then r else set_selected nv r"
  let ?xs = "model s"
  let ?sk = "s\<lparr>model := map ?g (take k ?xs) @ drop k ?xs\<rparr>"
  from Suc.prems have k: "k < length ?xs" by simp
  then have IH: "select_rows c nv [0..<k] s = Inr ?sk" using Suc.IH by simp
  have nth: "(map ?g (take k ?xs) @ drop k ?xs) ! k = ?xs ! k"
    using k by (simp add: nth_append)
  from dest k obtain p where p: "row_destination s (?xs ! k) = Some p"
    by (meson nth_mem)
  then obtain t where t: "display (title_item (?xs ! k)) = QString t"
    "dl_path_correspondences s t = Some p"
    by (auto simp: row_destination_def split: qvariant.splits)
  have rc: "row_skipped c s (?xs ! k) = (p \<noteq> [] \<and> is_download_complete c p)"
    using p by (simp add: row_skipped_def)
  have sr: "select_row c nv k ?sk =
      Inr (if p \<noteq> [] \<and> is_download_complete c p then ?sk
           else ?sk\<lparr>model := (map ?g (take k ?xs) @ drop k ?xs)
                                [k := set_selected nv (?xs ! k)]\<rparr>)"
    using t p by (simp add: select_row_def getitem_def nth del: nth_append)
  have split: "map ?g (take (Suc k) ?xs) @ drop (Suc k) ?xs
      = map ?g (take k ?xs) @ ?g (?xs ! k) # drop (Suc k) ?xs"
    using k by (simp add: take_Suc_conv_app_nth)
  have keep: "map ?g (take k ?xs) @ drop k ?xs
      = map ?g (take k ?xs) @ (?xs ! k) # drop (Suc k) ?xs"
    using k by (simp add: Cons_nth_drop_Suc)
  have upd: "(map ?g (take k ?xs) @ drop k ?xs)[k := v]
      = map ?g (take k ?xs) @ v # drop (Suc k) ?xs" for v
    using k by (simp add: list_update_append Cons_nth_drop_Suc [symmetric])
  have step: "select_row c nv k ?sk =
      Inr (s\<lparr>model := map ?g (take (Suc k) ?xs) @ drop (Suc k) ?xs\<rparr>)"
  proof (cases "p \<noteq> [] \<and> is_download_complete c p")
    case True
    then have "?g (?xs ! k) = ?xs ! k" using rc by auto
    with split keep have "map ?g (take (Suc k) ?xs) @ drop (Suc k) ?xs
      = map ?g (take k ?xs) @ drop k ?xs" by simp
    with sr True show ?thesis by simp
  next
    case False
    then have "?g (?xs ! k) = set_selected nv (?xs ! k)" using rc by auto
    with split upd have "map ?g (take (Suc k) ?xs) @ drop (Suc k) ?xs
      = (map ?g (take k ?xs) @ drop k ?xs)[k := set_selected nv (?xs ! k)]" by simp
    with sr False show ?thesis by simp
  qed
  have "[0..<Suc k] = [0..<k] @ [k]" by simp
  then show ?case
    by (simp only: select_rows_append IH sum.case select_rows.simps step)
qed


lemma onSelectAllStateChanged_eq:
  assumes "\<forall>r \<in> set (model s). \<exists>p. row_destination s r = Some p"
  shows "onSelectAllStateChanged c state s =
     Inr (s\<lparr>model := map (\<lambda>r. if row_skipped c s r then r else set_selected (state = 2) r)
                        (model s)\<rparr>)"
  using select_rows_prefix [OF assms, of "length (model s)" c "state = 2"]
  by (simp add: onSelectAllStateChanged_def)

text \<open>The condition of the loop's \<open>continue\<close>, spelled out.\<close>

lemma row_skipped_iff:
  "row_skipped c s r \<longleftrightarrow>
     (\<exists>p. row_destination s r = Some p \<and> p \<noteq> [] \<and> is_download_complete c p)"
  by (simp add: row_skipped_def split: option.splits)

lemma example_populated_model:
  "model example_populated =
     [make_row ''Intro'' ''https://youtu.be/a'' True,
      make_row ''Talk'' ''https://youtu.be/b'' False,
      make_row ''Talk'' ''https://youtu.be/c'' False]"
  by (simp add: example_populated_def populate_window_list_eq [OF example_window_directory]
      example_window_videos)
     (simp add: example_videos_def fresh_row_def example_paths, simp add: example_collaborators_def)

lemma example_populated_paths:
  "dl_path_correspondences example_populated ''Intro'' = Some ''./Intro''"
  "dl_path_correspondences example_populated ''Talk'' = Some ''./Talk''"
  by (simp_all add: example_populated_def populate_window_list_eq [OF example_window_directory]
      example_window_videos)
     (simp_all add: example_videos_def example_paths)

lemma title_of_make_row: "display (title_item (make_row t l b)) = QString t"
  by (simp add: make_row_def Let_def new_text_item_def)

lemma example_populated_destinations:
  "row_destination example_populated (make_row ''Intro'' l b) = Some ''./Intro''"
  "row_destination example_populated (make_row ''Talk'' l b) = Some ''./Talk''"
  by (simp_all add: row_destination_def title_of_make_row example_populated_paths)

lemma checkState_make_row: "checkState (download_item (make_row t l b)) = Unchecked"
  by (simp add: make_row_def Let_def checkState_def setCheckable_def new_item_def)

lemma checkState_set_selected:
  "checkState (download_item (set_selected nv r)) = (if nv then Checked else Unchecked)"
  by (simp add: set_selected_def checkState_def)

subsection \<open>The correspondence between rows and destination paths\<close>

lemma row_destination_fresh_row:
  assumes "configured_download_directory s = PyStr d"
    and "populate_window_list c s = Inr s'"
    and "vid \<in> set (yt_chan_vids_titles_links s)"
  shows "row_destination s' (fresh_row c d vid) = Some (destination_path c d (fst vid))"
  using assms
  by (auto simp: populate_window_list_eq row_destination_def fresh_row_def title_of_make_row)

text \<open>
  After \<open>populate_window_list\<close> every row resolves to the path of its title, and
  rows with the same title are skipped together by the select-all loop.
\<close>

lemma populate_then_select_all:
  assumes "configured_download_directory s = PyStr d"
  shows "\<exists>s'. populate_window_list c s = Inr s'
     \<and> (\<forall>r \<in> set (model s').
           \<exists>t. display (title_item r) = QString t
              \<and> row_destination s' r = Some (destination_path c d t))
     \<and> (\<forall>i < length (model s'). \<forall>j < length (model s').
           display (title_item (model s' ! i)) = display (title_item (model s' ! j)) \<longrightarrow>
             row_destination s' (model s' ! i) = row_destination s' (model s' ! j)
           \<and> (\<forall>c' state. row_skipped c' s' (model s' ! i) \<longrightarrow>
                (\<exists>s''. onSelectAllStateChanged c' state s' = Inr s''
                   \<and> model s'' ! i = model s' ! i \<and> model s'' ! j = model s' ! j)))"
proof -
  obtain s' where s': "populate_window_list c s = Inr s'"
    by (simp add: populate_window_list_eq [OF assms])
  have model: "model s' = map (fresh_row c d) (yt_chan_vids_titles_links s)"
    using s' by (auto simp: populate_window_list_eq [OF assms])
  have rows: "\<exists>t. display (title_item r) = QString t
              \<and> row_destination s' r = Some (destination_path c d t)"
    if "r \<in> set (model s')" for r
  proof -
    from that model obtain vid where vid: "vid \<in> set (yt_chan_vids_titles_links s)"
      "r = fresh_row c d vid" by auto
    then show ?thesis
      using row_destination_fresh_row [OF assms s' vid(1)]
      by (simp add: fresh_row_def title_of_make_row)
  qed
  then have all: "\<forall>r \<in> set (model s'). \<exists>p. row_destination s' r = Some p"
    by blast
  have pair: "row_destination s' (model s' ! i) = row_destination s' (model s' ! j)
      \<and> (\<forall>c' state. row_skipped c' s' (model s' ! i) \<longrightarrow>
           (\<exists>s''. onSelectAllStateChanged c' state s' = Inr s''
              \<and> model s'' ! i = model s' ! i \<and> model s'' ! j = model s' ! j))"
    if i: "i < length (model s')" and j: "j < length (model s')"
      and eq: "display (title_item (model s' ! i)) = display (title_item (model s' ! j))"
    for i j
  proof -
    have same: "row_destination s' (model s' ! i) = row_destination s' (model s' ! j)"
      using eq by (simp add: row_destination_def)
    then have skip: "row_skipped c' s' (model s' ! j) = row_skipped c' s' (model s' ! i)" for c'
      by (simp add: row_skipped_def)
    show ?thesis
      using same skip i j by (simp add: onSelectAllStateChanged_eq [OF all])
  qed
  from s' rows pair show ?thesis by blast
qed

text \<open>
  C9, as the code has it. The correspondence map is keyed by the title a row displays.
  After \<open>populate_window_list\<close> (with a string as download directory) the lookup
  succeeds for every row and gives the destination path of the row's title. Two rows
  with the same title resolve to the same single entry; once that path is a non-empty
  string that is reported complete, the select-all slot returns and leaves both rows as
  they were.
\<close>

theorem correspondence_keyed_by_title:
  assumes "configured_download_directory s = PyStr d"
  shows "\<exists>s'. populate_window_list c s = Inr s'
     \<and> (\<forall>r \<in> set (model s').
           \<exists>t. display (title_item r) = QString t
              \<and> row_destination s' r = Some (destination_path c d t))
     \<and> (\<forall>i < length (model s'). \<forall>j < length (model s').
           display (title_item (model s' ! i)) = display (title_item (model s' ! j)) \<longrightarrow>
             row_destination s' (model s' ! i) = row_destination s' (model s' ! j)
           \<and> (\<forall>c' state.
                (\<exists>p. row_destination s' (model s' ! i) = Some p \<and> p \<noteq> []
                      \<and> is_download_complete c' p) \<longrightarrow>
                (\<exists>s''. onSelectAllStateChanged c' state s' = Inr s''
                   \<and> model s'' ! i = model s' ! i \<and> model s'' ! j = model s' ! j)))"
  using populate_then_select_all [OF assms, of c]
  unfolding row_skipped_iff .

theorem correspondence_keyed_by_title_witness:
  "\<exists>s' s''. populate_window_list example_collaborators example_window = Inr s'
     \<and> display (title_item (model s' ! 1)) = QString ''Talk''
     \<and> display (title_item (model s' ! 2)) = QString ''Talk''
     \<and> row_destination s' (model s' ! 1) = Some ''./Talk''
     \<and> row_destination s' (model s' ! 2) = Some ''./Talk''
     \<and> onSelectAllStateChanged example_collaborators_later 2 s' = Inr s''
     \<and> model s'' ! 1 = model s' ! 1 \<and> model s'' ! 2 = model s' ! 2"
proof -
  from correspondence_keyed_by_title [OF example_window_directory, of example_collaborators]
  obtain s' where s': "populate_window_list example_collaborators example_window = Inr s'"
    and pair: "\<And>i j. i < length (model s') \<Longrightarrow> j < length (model s') \<Longrightarrow>
        display (title_item (model s' ! i)) = display (title_item (model s' ! j)) \<Longrightarrow>
        \<exists>p. row_destination s' (model s' ! i) = Some p \<and> p \<noteq> []
            \<and> is_download_complete example_collaborators_later p \<Longrightarrow>
        \<exists>s''. onSelectAllStateChanged example_collaborators_later 2 s' = Inr s''
          \<and> model s'' ! i = model s' ! i \<and> model s'' ! j = model s' ! j"
    by blast
  have eq: "s' = example_populated"
    using s' by (simp add: example_populated_def)
  have titles: "display (title_item (model s' ! 1)) = QString ''Talk''"
    "display (title_item (model s' ! 2)) = QString ''Talk''"
    by (simp_all add: eq example_populated_model title_of_make_row)
  have dest: "row_destination s' (model s' ! 1) = Some ''./Talk''"
    "row_destination s' (model s' ! 2) = Some ''./Talk''"
    by (simp_all add: eq example_populated_model example_populated_destinations)
  have complete: "\<exists>p. row_destination s' (model s' ! 1) = Some p \<and> p \<noteq> []
      \<and> is_download_complete example_collaborators_later p"
    using dest by (simp add: example_collaborators_later_def)
  have "1 < length (model s')" "2 < length (model s')"
    by (simp_all add: eq example_populated_model)
  from pair [OF this] titles complete
  obtain s'' where "onSelectAllStateChanged example_collaborators_later 2 s' = Inr s''"
    "model s'' ! 1 = model s' ! 1" "model s'' ! 2 = model s' ! 2"
    by auto
  with s' titles dest show ?thesis by blast
qed

text \<open>
  C9 as stated fails where the stored path is the empty string: two rows with the same
  (empty) title resolve to the same path, the probe reports that path complete, and
  the select-all slot checks both rows all the same.
\<close>

theorem equal_titles_with_empty_path_are_not_skipped:
  "display (title_item (model example_blank_listed ! 0))
     = display (title_item (model example_blank_listed ! 1))
   \<and> row_destination example_blank_listed (model example_blank_listed ! 0) = Some []
   \<and> row_destination example_blank_listed (model example_blank_listed ! 1) = Some []
   \<and> is_download_complete example_blank_collaborators []
   \<and> checkState (download_item (model example_blank_listed ! 0)) = Unchecked
   \<and> checkState (download_item (model example_blank_listed ! 1)) = Unchecked
   \<and> onSelectAllStateChanged example_blank_collaborators 2 example_blank_listed
       = Inr example_blank_selected
   \<and> checkState (download_item (model example_blank_selected ! 0)) = Checked
   \<and> checkState (download_item (model example_blank_selected ! 1)) = Checked"
proof -
  have "\<not> isl (onSelectAllStateChanged example_blank_collaborators 2 example_blank_listed)"
    by code_simp
  then have "onSelectAllStateChanged example_blank_collaborators 2 example_blank_listed
       = Inr example_blank_selected"
    by (cases "onSelectAllStateChanged example_blank_collaborators 2 example_blank_listed")
       (simp_all add: example_blank_selected_def)
  moreover have
    "display (title_item (model example_blank_listed ! 0))
       = display (title_item (model example_blank_listed ! 1))"
    "row_destination example_blank_listed (model example_blank_listed ! 0) = Some []"
    "row_destination example_blank_listed (model example_blank_listed ! 1) = Some []"
    "is_download_complete example_blank_collaborators []"
    "checkState (download_item (model example_blank_listed ! 0)) = Unchecked"
    "checkState (download_item (model example_blank_listed ! 1)) = Unchecked"
    "checkState (download_item (model example_blank_selected ! 0)) = Checked"
    "checkState (download_item (model example_blank_selected ! 1)) = Checked"
    by code_simp+
  ultimately show ?thesis by simp
qed


subsection \<open>What the slots leave alone\<close>

lemma populate_rows_frame:
  "populate_rows c tls s = Inr s' \<Longrightarrow>
     dl_threads s' = dl_threads s \<and> dialogs s' = dialogs s
     \<and> get_list_threads s' = get_list_threads s
     \<and> download_semaphore s' = download_semaphore s
     \<and> user_settings s' = user_settings s
     \<and> yt_chan_vids_titles_links s' = yt_chan_vids_titles_links s
     \<and> getVidListButton_enabled s' = getVidListButton_enabled s"
proof (induction tls arbitrary: s)
  case Nil
  then show ?case by simp
next
  case (Cons vid tls)
  from Cons.prems obtain d where d: "configured_download_directory s = PyStr d"
    by (cases "configured_download_directory s") (simp_all add: Let_def)
  let ?s1 = "s\<lparr>model := model s @ [fresh_row c d vid],
               dl_path_correspondences :=
                 (dl_path_correspondences s)(fst vid \<mapsto> destination_path c d (fst vid))\<rparr>"
  have "populate_rows c tls ?s1 = Inr s'"
    using Cons.prems d by (simp add: Let_def fresh_row_def)
  from Cons.IH [OF this] show ?case by simp
qed

lemma populate_window_list_frame:
  assumes "populate_window_list c s = Inr s'"
  shows "dl_threads s' = dl_threads s \<and> dialogs s' = dialogs s
     \<and> get_list_threads s' = get_list_threads s
     \<and> download_semaphore s' = download_semaphore s
     \<and> user_settings s' = user_settings s
     \<and> yt_chan_vids_titles_links s' = yt_chan_vids_titles_links s
     \<and> getVidListButton_enabled s' = getVidListButton_enabled s"
proof -
  from assms obtain s1 where
    s1: "populate_rows c (yt_chan_vids_titles_links s) (reinit_model s) = Inr s1"
    and s': "s' = (if model s1 \<noteq> []
               then s1\<lparr>select_all_checkbox_visible := True, window_resize_needed := False\<rparr>
               else s1)"
    by (auto simp: populate_window_list_def split: sum.splits)
  from populate_rows_frame [OF s1] s' show ?thesis
    by (simp add: reinit_model_def)
qed

lemma select_row_frame:
  "select_row c nv row s = Inr s' \<Longrightarrow>
     dl_threads s' = dl_threads s \<and> dialogs s' = dialogs s
     \<and> get_list_threads s' = get_list_threads s
     \<and> download_semaphore s' = download_semaphore s
     \<and> user_settings s' = user_settings s
     \<and> yt_chan_vids_titles_links s' = yt_chan_vids_titles_links s
     \<and> getVidListButton_enabled s' = getVidListButton_enabled s"
  by (auto simp: select_row_def split: qvariant.splits sum.splits if_splits)

lemma select_rows_frame:
  "select_rows c nv rows s = Inr s' \<Longrightarrow>
     dl_threads s' = dl_threads s \<and> dialogs s' = dialogs s
     \<and> get_list_threads s' = get_list_threads s
     \<and> download_semaphore s' = download_semaphore s
     \<and> user_settings s' = user_settings s
     \<and> yt_chan_vids_titles_links s' = yt_chan_vids_titles_links s
     \<and> getVidListButton_enabled s' = getVidListButton_enabled s"
proof (induction rows arbitrary: s)
  case Nil
  then show ?case by simp
next
  case (Cons row rows)
  from Cons.prems obtain s1 where s1: "select_row c nv row s = Inr s1"
    and rest: "select_rows c nv rows s1 = Inr s'"
    by (auto split: sum.splits)
  from Cons.IH [OF rest] select_row_frame [OF s1] show ?case by simp
qed

lemma update_progress_frame:
  "update_progress c data s = Inr s' \<Longrightarrow>
     dl_threads s' = dl_threads s \<and> dialogs s' = dialogs s
     \<and> get_list_threads s' = get_list_threads s
     \<and> download_semaphore s' = download_semaphore s
     \<and> user_settings s' = user_settings s
     \<and> yt_chan_vids_titles_links s' = yt_chan_vids_titles_links s
     \<and> getVidListButton_enabled s' = getVidListButton_enabled s"
  by (auto simp: update_progress_def Let_def split: sum.splits if_splits)

text \<open>The threads that \<open>dl_vids\<close> appends, and what it leaves alone.\<close>

lemma start_downloads_threads:
  "\<exists>new. dl_threads (start_downloads idxs s) = dl_threads s @ new
     \<and> map dt_index new = idxs
     \<and> (\<forall>t \<in> set new. downloadProgressSignal t = [Slot_update_progress]
           \<and> downloadCompleteSignal t = [Slot_populate_window_list] \<and> dt_started t)"
proof (induction idxs arbitrary: s)
  case Nil
  then show ?case by simp
next
  case (Cons index rest)
  let ?s1 = "s\<lparr>model := (model s)[index := (model s ! index)\<lparr>progress_item := new_item\<rparr>]\<rparr>"
  let ?t = "\<lparr>dt_link = item_text (link_item (model ?s1 ! index)), dt_index = index,
            dt_title = item_text (title_item (model ?s1 ! index)),
            downloadCompleteSignal = [Slot_populate_window_list],
            downloadProgressSignal = [Slot_update_progress], dt_started = True\<rparr>"
  let ?s2 = "?s1\<lparr>dl_threads := dl_threads ?s1 @ [?t]\<rparr>"
  have unfold: "start_downloads (index # rest) s = start_downloads rest ?s2"
    by (simp add: Let_def)
  from Cons.IH [of ?s2] obtain new where
    new: "dl_threads (start_downloads rest ?s2) = dl_threads ?s2 @ new"
    "map dt_index new = rest"
    "\<forall>t \<in> set new. downloadProgressSignal t = [Slot_update_progress]
           \<and> downloadCompleteSignal t = [Slot_populate_window_list] \<and> dt_started t"
    by blast
  have A: "dl_threads (start_downloads (index # rest) s) = dl_threads s @ (?t # new)"
    using new(1) unfold by simp
  have B: "map dt_index (?t # new) = index # rest"
    using new(2) by simp
  have C: "\<forall>t \<in> set (?t # new). downloadProgressSignal t = [Slot_update_progress]
           \<and> downloadCompleteSignal t = [Slot_populate_window_list] \<and> dt_started t"
    using new(3) by simp
  show ?case
    by (rule exI [of _ "?t # new"]) (intro conjI A B C)
qed

lemma start_downloads_frame:
  "dialogs (start_downloads idxs s) = dialogs s
   \<and> get_list_threads (start_downloads idxs s) = get_list_threads s
   \<and> download_semaphore (start_downloads idxs s) = download_semaphore s
   \<and> user_settings (start_downloads idxs s) = user_settings s
   \<and> yt_chan_vids_titles_links (start_downloads idxs s) = yt_chan_vids_titles_links s
   \<and> getVidListButton_enabled (start_downloads idxs s) = getVidListButton_enabled s
   \<and> dl_path_correspondences (start_downloads idxs s) = dl_path_correspondences s
   \<and> vid_dl_indexes (start_downloads idxs s) = vid_dl_indexes s"
  by (induction idxs arbitrary: s) (simp_all add: Let_def)

lemma dl_vids_threads:
  "\<exists>new. dl_threads (dl_vids s) = dl_threads s @ new
     \<and> map dt_index new = checked_rows (model s)
     \<and> (\<forall>t \<in> set new. downloadProgressSignal t = [Slot_update_progress]
           \<and> downloadCompleteSignal t = [Slot_populate_window_list] \<and> dt_started t)"
  using start_downloads_threads
    [of "checked_rows (model s)" "s\<lparr>vid_dl_indexes := checked_rows (model s)\<rparr>"]
  by (simp add: dl_vids_def Let_def)

lemma dl_vids_frame:
  "dialogs (dl_vids s) = dialogs s
   \<and> get_list_threads (dl_vids s) = get_list_threads s
   \<and> download_semaphore (dl_vids s) = download_semaphore s
   \<and> user_settings (dl_vids s) = user_settings s
   \<and> yt_chan_vids_titles_links (dl_vids s) = yt_chan_vids_titles_links s
   \<and> getVidListButton_enabled (dl_vids s) = getVidListButton_enabled s
   \<and> dl_path_correspondences (dl_vids s) = dl_path_correspondences s
   \<and> vid_dl_indexes (dl_vids s) = checked_rows (model s)"
  using start_downloads_frame
    [of "checked_rows (model s)" "s\<lparr>vid_dl_indexes := checked_rows (model s)\<rparr>"]
  by (simp add: dl_vids_def Let_def)

lemma show_vid_list_frame:
  assumes "show_vid_list yt s = Inr s'"
  shows "dl_threads s' = dl_threads s
     \<and> download_semaphore s' = download_semaphore s
     \<and> user_settings s' = user_settings s
     \<and> yt_chan_vids_titles_links s' = yt_chan_vids_titles_links s
     \<and> model s' = model s
     \<and> (dialogs s' = dialogs s
        \<or> dialogs s' = dialogs s @ [CustomDialog ''URL error'' ''Please check your URL''])"
  using assms
  by (auto simp: show_vid_list_def Let_def start_get_list_thread_def display_error_dialog_def
      split: if_splits sum.splits py_error.splits)

lemma show_vid_list_fetch_threads:
  assumes "show_vid_list yt s = Inr s'"
    and "\<forall>t \<in> set (get_list_threads s). glt_started t \<longrightarrow>
           glt_finished t = [Slot_handle_video_list, Slot_enable_get_vid_list_button]
           \<or> glt_finished t = [Slot_handle_single_video, Slot_enable_get_vid_list_button]"
  shows "\<forall>t \<in> set (get_list_threads s'). glt_started t \<longrightarrow>
           glt_finished t = [Slot_handle_video_list, Slot_enable_get_vid_list_button]
           \<or> glt_finished t = [Slot_handle_single_video, Slot_enable_get_vid_list_button]"
  using assms
  by (auto simp: show_vid_list_def Let_def start_get_list_thread_def display_error_dialog_def
      new_GetListThread_def split: if_splits sum.splits py_error.splits)

lemma run_finished_slots_frame:
  "run_finished_slots c slots video_list s = Inr s' \<Longrightarrow>
     dl_threads s' = dl_threads s \<and> dialogs s' = dialogs s
     \<and> get_list_threads s' = get_list_threads s
     \<and> download_semaphore s' = download_semaphore s
     \<and> user_settings s' = user_settings s"
proof (induction slots arbitrary: s)
  case Nil
  then show ?case by simp
next
  case (Cons sl slots)
  from Cons.prems obtain s1 where
    s1: "(case sl of
            Slot_handle_video_list \<Rightarrow> handle_video_list c video_list s
          | Slot_handle_single_video \<Rightarrow> handle_single_video c video_list s
          | Slot_enable_get_vid_list_button \<Rightarrow> Inr (enable_get_vid_list_button s)) = Inr s1"
    and rest: "run_finished_slots c slots video_list s1 = Inr s'"
    by (auto split: sum.splits)
  have "dl_threads s1 = dl_threads s \<and> dialogs s1 = dialogs s
     \<and> get_list_threads s1 = get_list_threads s
     \<and> download_semaphore s1 = download_semaphore s
     \<and> user_settings s1 = user_settings s"
  proof (cases sl)
    case Slot_handle_video_list
    with s1 populate_window_list_frame
      [of c "s\<lparr>yt_chan_vids_titles_links := video_list\<rparr>" s1]
    show ?thesis by (simp add: handle_video_list_def)
  next
    case Slot_handle_single_video
    with s1 populate_window_list_frame
      [of c "s\<lparr>yt_chan_vids_titles_links := video_list\<rparr>" s1]
    show ?thesis by (simp add: handle_single_video_def)
  next
    case Slot_enable_get_vid_list_button
    with s1 show ?thesis by (auto simp: enable_get_vid_list_button_def)
  qed
  with Cons.IH [OF rest] show ?case by simp
qed

text \<open>
  The wiring of a live window: every download thread is connected to
  \<open>update_progress\<close> and \<open>populate_window_list\<close> and to nothing else, every started
  fetch thread to its list handler and the button, and the only dialogs that were ever
  shown are URL error dialogs.
\<close>

lemma reachable_wiring:
  assumes "reachable s"
  shows "(\<forall>t \<in> set (dl_threads s).
            downloadProgressSignal t = [Slot_update_progress]
            \<and> downloadCompleteSignal t = [Slot_populate_window_list])
     \<and> (\<forall>d \<in> set (dialogs s). \<exists>m. d = CustomDialog ''URL error'' m)
     \<and> (\<forall>t \<in> set (get_list_threads s). glt_started t \<longrightarrow>
           glt_finished t = [Slot_handle_video_list, Slot_enable_get_vid_list_button]
           \<or> glt_finished t = [Slot_handle_single_video, Slot_enable_get_vid_list_button])"
  using assms
proof (induction rule: reachable.induct)
  case (reachable_init settings)
  show ?case
    by (simp add: MainWindow_init_def Let_def connect_signals_def init_download_structs_def)
next
  case (reachable_step s c ev s')
  note inv = reachable_step.IH
  note st = reachable_step.hyps(2)
  show ?case
  proof (cases ev)
    case (Edit_chanUrl url)
    with st inv show ?thesis by auto
  next
    case (Run_show_vid_list yt)
    with st have sv: "show_vid_list yt s = Inr s'" by simp
    from show_vid_list_frame [OF sv] show_vid_list_fetch_threads [OF sv] inv
    show ?thesis by auto
  next
    case Run_dl_vids
    with st have s': "s' = dl_vids s" by simp
    from dl_vids_threads [of s] dl_vids_frame [of s] inv show ?thesis
      unfolding s' by auto
  next
    case (Run_onSelectAllStateChanged state)
    with st have "select_rows c (state = 2) [0..<length (model s)] s = Inr s'"
      by (simp add: onSelectAllStateChanged_def)
    from select_rows_frame [OF this] inv show ?thesis by simp
  next
    case (Change_row_checkbox row cs)
    with st have "dl_threads s' = dl_threads s \<and> dialogs s' = dialogs s
        \<and> get_list_threads s' = get_list_threads s"
      by (auto simp: change_row_checkbox_def)
    with inv show ?thesis by simp
  next
    case (Change_user_settings settings)
    with st inv show ?thesis by auto
  next
    case (Emit_finished k video_list)
    with st have "emit_finished c k video_list s = Inr s'" by simp
    then have "dl_threads s' = dl_threads s \<and> dialogs s' = dialogs s
        \<and> get_list_threads s' = get_list_threads s"
      using run_finished_slots_frame
        [of c "glt_finished (get_list_threads s ! k)" video_list s s']
      by (auto simp: emit_finished_def split: if_splits)
    with inv show ?thesis by simp
  next
    case (Emit_downloadProgressSignal k data)
    with st have e: "emit_downloadProgressSignal c k data s = Inr s'" by simp
    have "dl_threads s' = dl_threads s \<and> dialogs s' = dialogs s
        \<and> get_list_threads s' = get_list_threads s"
    proof (cases "k < length (dl_threads s)")
      case True
      with inv have "downloadProgressSignal (dl_threads s ! k) = [Slot_update_progress]"
        by simp
      with e True have "update_progress c data s = Inr s'"
        by (simp add: emit_downloadProgressSignal_def split: sum.splits)
      from update_progress_frame [OF this] show ?thesis by simp
    next
      case False
      with e show ?thesis by (simp add: emit_downloadProgressSignal_def)
    qed
    with inv show ?thesis by simp
  next
    case (Emit_downloadCompleteSignal k index)
    with st have e: "emit_downloadCompleteSignal c k index s = Inr s'" by simp
    have "dl_threads s' = dl_threads s \<and> dialogs s' = dialogs s
        \<and> get_list_threads s' = get_list_threads s"
    proof (cases "k < length (dl_threads s)")
      case True
      with inv have "downloadCompleteSignal (dl_threads s ! k) = [Slot_populate_window_list]"
        by simp
      with e True have "populate_window_list c s = Inr s'"
        by (simp add: emit_downloadCompleteSignal_def split: sum.splits)
      from populate_window_list_frame [OF this] show ?thesis by simp
    next
      case False
      with e show ?thesis by (simp add: emit_downloadCompleteSignal_def)
    qed
    with inv show ?thesis by simp
  next
    case (Emit_showError message)
    with st inv show ?thesis by (auto simp: display_error_dialog_def)
  qed
qed

subsection \<open>The wiring of the download threads\<close>

lemma reachable_run:
  "reachable s \<Longrightarrow> run c evs s = Inr s' \<Longrightarrow> reachable s'"
proof (induction evs arbitrary: s)
  case Nil
  then show ?case by simp
next
  case (Cons ev evs)
  from Cons.prems(2) obtain s1 where s1: "step c ev s = Inr s1"
    and rest: "run c evs s1 = Inr s'"
    by (auto split: sum.splits)
  from Cons.prems(1) s1 have "reachable s1" by (rule reachable_step)
  from Cons.IH [OF this rest] show ?case .
qed

lemma example_dispatched_run:
  "run example_collaborators example_session (MainWindow_init Map.empty)
     = Inr example_dispatched"
proof -
  have "\<not> isl (run example_collaborators example_session (MainWindow_init Map.empty))"
    by code_simp
  then show ?thesis
    by (cases "run example_collaborators example_session (MainWindow_init Map.empty)")
       (simp_all add: example_dispatched_def)
qed

lemma example_dispatched_reachable: "reachable example_dispatched"
  using reachable_run [OF reachable_init example_dispatched_run] .

lemma example_dispatched_facts:
  "map dt_index (dl_threads example_dispatched) = [1, 2]"
  "dialogs example_dispatched = []"
  "configured_download_directory example_dispatched = PyStr ''./''"
  "yt_chan_vids_titles_links example_dispatched = example_videos"
  "map (\<lambda>r. checkState (download_item r)) (model example_dispatched)
     = [Unchecked, Checked, Checked]"
  "map (\<lambda>r. item_text (progress_item r)) (model example_dispatched)
     = [''Complete'', ''50 %'', []]"
  by code_simp+

text \<open>In a live window a download thread's signals run one slot each.\<close>

lemma reachable_emit_progress:
  assumes "reachable s"
  shows "emit_downloadProgressSignal c k data s =
     (if k < length (dl_threads s) then update_progress c data s else Inr s)"
  using reachable_wiring [OF assms]
  by (simp add: emit_downloadProgressSignal_def split: sum.splits)

lemma reachable_emit_complete:
  assumes "reachable s"
  shows "emit_downloadCompleteSignal c k index s =
     (if k < length (dl_threads s) then populate_window_list c s else Inr s)"
  using reachable_wiring [OF assms]
  by (simp add: emit_downloadCompleteSignal_def split: sum.splits)

text \<open>
  C10. The loop of \<open>connect_signals\<close> runs at construction over the list that
  \<open>init_download_structs\<close> has just emptied, so it connects nothing, and a new window
  has no download thread. In every state of a live window each download thread is
  connected to \<open>update_progress\<close> and \<open>populate_window_list\<close> only: its progress
  signal runs \<open>update_progress\<close> and nothing else, its completion signal runs
  \<open>populate_window_list\<close> and nothing else, and no error report and no completion
  dialog was ever shown (the only dialogs of a live window are URL error dialogs).
\<close>

theorem error_handlers_never_connected:
  assumes "reachable s"
  shows "connect_signals (init_download_structs w) = init_download_structs w
     \<and> dl_threads (MainWindow_init settings) = []
     \<and> (\<forall>t \<in> set (dl_threads s).
           downloadProgressSignal t = [Slot_update_progress]
           \<and> downloadCompleteSignal t = [Slot_populate_window_list])
     \<and> emit_downloadProgressSignal c k data s =
         (if k < length (dl_threads s) then update_progress c data s else Inr s)
     \<and> emit_downloadCompleteSignal c k index s =
         (if k < length (dl_threads s) then populate_window_list c s else Inr s)
     \<and> (\<forall>d \<in> set (dialogs s). \<exists>m. d = CustomDialog ''URL error'' m)"
proof -
  have "connect_signals (init_download_structs w) = init_download_structs w"
    by (simp add: connect_signals_def init_download_structs_def)
  moreover have "dl_threads (MainWindow_init settings) = []"
    by (simp add: MainWindow_init_def Let_def connect_signals_def init_download_structs_def)
  ultimately show ?thesis
    using reachable_wiring [OF assms] reachable_emit_progress [OF assms]
      reachable_emit_complete [OF assms]
    by simp
qed

theorem error_handlers_never_connected_witness:
  "reachable example_dispatched
   \<and> length (dl_threads example_dispatched) = 2
   \<and> downloadProgressSignal (dl_threads example_dispatched ! 0) = [Slot_update_progress]
   \<and> downloadCompleteSignal (dl_threads example_dispatched ! 0) = [Slot_populate_window_list]
   \<and> downloadProgressSignal (dl_threads example_dispatched ! 1) = [Slot_update_progress]
   \<and> downloadCompleteSignal (dl_threads example_dispatched ! 1) = [Slot_populate_window_list]
   \<and> dialogs example_dispatched = []"
proof -
  have len: "length (dl_threads example_dispatched) = 2"
    using example_dispatched_facts(1) by (metis length_map length_Cons list.size(3) One_nat_def Suc_1)
  from error_handlers_never_connected [OF example_dispatched_reachable]
  have wired: "\<forall>t \<in> set (dl_threads example_dispatched).
           downloadProgressSignal t = [Slot_update_progress]
           \<and> downloadCompleteSignal t = [Slot_populate_window_list]"
    by blast
  have "dl_threads example_dispatched ! 0 \<in> set (dl_threads example_dispatched)"
    "dl_threads example_dispatched ! 1 \<in> set (dl_threads example_dispatched)"
    using len by simp_all
  with wired len example_dispatched_reachable example_dispatched_facts(2)
  show ?thesis by simp
qed

lemma fresh_row_reset:
  "checkState (download_item (fresh_row c d vid)) = Unchecked
   \<and> display (download_item (fresh_row c d vid)) = Invalid
   \<and> (item_text (progress_item (fresh_row c d vid)) = []
      \<or> item_text (progress_item (fresh_row c d vid)) = ''Complete'')"
  by (simp add: fresh_row_def make_row_def Let_def checkState_def setCheckable_def
      new_item_def item_text_def)

text \<open>
  C8. In a live window whose download directory is a string, the completion signal of
  any download thread rebuilds the whole model: the slot returns, and the model
  consists of the fresh rows of the stored (title, link) list, whatever it held before.
  Every row is unchecked and without display data in its checkbox cell, and its
  progress cell is empty or reads \<open>Complete\<close>: the selection and the displayed
  progress of all rows are reset, also of the rows whose downloads are still running.
\<close>

theorem download_complete_rebuilds_model:
  assumes "reachable s" and "k < length (dl_threads s)"
    and "configured_download_directory s = PyStr d"
  shows "\<exists>s'. emit_downloadCompleteSignal c k index s = Inr s'
     \<and> model s' = map (fresh_row c d) (yt_chan_vids_titles_links s)
     \<and> (\<forall>r \<in> set (model s').
           checkState (download_item r) = Unchecked
           \<and> display (download_item r) = Invalid
           \<and> (item_text (progress_item r) = [] \<or> item_text (progress_item r) = ''Complete''))"
proof -
  have "emit_downloadCompleteSignal c k index s = populate_window_list c s"
    using reachable_emit_complete [OF assms(1)] assms(2) by simp
  then show ?thesis
    using fresh_row_reset by (auto simp: populate_window_list_eq [OF assms(3)])
qed

theorem download_complete_rebuilds_model_witness:
  "checkState (download_item (model example_dispatched ! 2)) = Checked
   \<and> item_text (progress_item (model example_dispatched ! 1)) = ''50 %''
   \<and> (\<exists>s'. emit_downloadCompleteSignal example_collaborators_later 0 (PyInt 1)
              example_dispatched = Inr s'
         \<and> length (model s') = 3
         \<and> checkState (download_item (model s' ! 1)) = Unchecked
         \<and> checkState (download_item (model s' ! 2)) = Unchecked
         \<and> item_text (progress_item (model s' ! 1)) = ''Complete''
         \<and> item_text (progress_item (model s' ! 2)) = ''Complete'')"
proof -
  have k: "0 < length (dl_threads example_dispatched)"
    using example_dispatched_facts(1) by (cases "dl_threads example_dispatched") simp_all
  from download_complete_rebuilds_model
    [OF example_dispatched_reachable k example_dispatched_facts(3),
     of example_collaborators_later "PyInt 1"]
  obtain s' where s': "emit_downloadCompleteSignal example_collaborators_later 0 (PyInt 1)
              example_dispatched = Inr s'"
    and model: "model s' = map (fresh_row example_collaborators_later ''./'') example_videos"
    unfolding example_dispatched_facts(4) by blast
  have after: "length (map (fresh_row example_collaborators_later ''./'') example_videos) = 3"
    "checkState (download_item
       (map (fresh_row example_collaborators_later ''./'') example_videos ! 1)) = Unchecked"
    "checkState (download_item
       (map (fresh_row example_collaborators_later ''./'') example_videos ! 2)) = Unchecked"
    "item_text (progress_item
       (map (fresh_row example_collaborators_later ''./'') example_videos ! 1)) = ''Complete''"
    "item_text (progress_item
       (map (fresh_row example_collaborators_later ''./'') example_videos ! 2)) = ''Complete''"
    by code_simp+
  have before: "checkState (download_item (model example_dispatched ! 2)) = Checked"
    "item_text (progress_item (model example_dispatched ! 1)) = ''50 %''"
    by code_simp+
  from s' after before show ?thesis
    unfolding model [symmetric] by blast
qed

subsection \<open>Select all in a live window\<close>

lemma rows_resolved_iff:
  "rows_resolved s \<longleftrightarrow> (\<forall>r \<in> set (model s). \<exists>p. row_destination s r = Some p)"
  by (auto simp: rows_resolved_def list_all_iff)

lemma row_destination_Some_iff:
  "(\<exists>p. row_destination s r = Some p) \<longleftrightarrow>
     (\<exists>t p. display (title_item r) = QString t \<and> dl_path_correspondences s t = Some p)"
  by (cases "display (title_item r)") (simp_all add: row_destination_def)

lemma rows_resolved_titles:
  "rows_resolved s \<longleftrightarrow>
     (\<forall>ti \<in> set (map title_item (model s)).
        \<exists>t p. display ti = QString t \<and> dl_path_correspondences s t = Some p)"
  by (simp add: rows_resolved_iff row_destination_Some_iff)

lemma rows_resolved_same_titles:
  assumes "map title_item (model s') = map title_item (model s)"
    and "dl_path_correspondences s' = dl_path_correspondences s"
    and "rows_resolved s"
  shows "rows_resolved s'"
  using assms unfolding rows_resolved_titles by simp



















subsection \<open>Dispatch on the shape of the URL\<close>

text \<open>
  For a short-form URL that is not a playlist URL, \<open>show_vid_list\<close> constructs the
  thread with the \<open>short\<close> strategy, replaces it unstarted, and starts a thread
  without strategy tag, wired like the one for an ordinary video.
\<close>

lemma show_vid_list_short:
  assumes "is_short_video_url yt (chanUrlEdit s)"
    and "\<not> is_video_with_playlist_url yt (chanUrlEdit s)"
    and "\<not> is_playlist_url yt (chanUrlEdit s)"
  shows "\<exists>s'. show_vid_list yt s = Inr s'
     \<and> get_list_threads s' = get_list_threads s
         @ [\<lparr>glt_channel_id = Some ''short'', glt_channel_url = Some (chanUrlEdit s),
             glt_finished = [], glt_started = False\<rparr>,
            \<lparr>glt_channel_id = None, glt_channel_url = Some (chanUrlEdit s),
             glt_finished = [Slot_handle_single_video, Slot_enable_get_vid_list_button],
             glt_started = True\<rparr>]"
  using assms
  by (simp add: show_vid_list_def Let_def start_get_list_thread_def new_GetListThread_def)

text \<open>
  C3 fails on the code at a short-form URL: the thread that is started for
  \<open>https://www.youtube.com/shorts/xyz\<close> carries no strategy tag, and the thread built
  with the \<open>short\<close> strategy is never connected and never started.
\<close>

theorem short_video_url_fetched_without_short_strategy:
  "map glt_channel_id (get_list_threads example_short_requested) = [Some ''short'', None]
   \<and> map glt_started (get_list_threads example_short_requested) = [False, True]
   \<and> map glt_finished (get_list_threads example_short_requested)
       = [[], [Slot_handle_single_video, Slot_enable_get_vid_list_button]]
   \<and> map glt_channel_url (get_list_threads example_short_requested)
       = [Some ''https://www.youtube.com/shorts/xyz'',
          Some ''https://www.youtube.com/shorts/xyz'']"
  by code_simp

end
